theory Spec2Isabelle
  imports Complex_Main "HOL-Library.Log_Nat" "HOL-Library.Multiset" "HOL-Library.Sublist"
begin

section \<open>Numbers\<close>

text \<open>
  The analysis utilities of \<^verbatim>\<open>src/utils/analysis.ts\<close> compute on JavaScript numbers,
  that is on IEEE 754 binary64 values: every arithmetic operation returns the exact
  result, rounded. A number is modelled as a finite \<^typ>\<open>real\<close>, and the rounding that
  follows each operation is a parameter \<open>rnd\<close> of every function that computes:
  \<^item> \<open>exact\<close> (no rounding) gives the arithmetic of the reals;
  \<^item> \<open>binary64\<close> rounds to nearest, ties to even, to 53 significant bits or, below
    the normal range, to a multiple of \<open>2 ^ -1074\<close> (gradual underflow).
  Non-finite inputs and overflow are outside the model. The places where the code
  produces a non-finite value from finite inputs (a quotient by zero, the square root
  of a negative number, the aggregate of no value) return a \<open>jsnum\<close>. Timestamps are integers (epoch milliseconds), array
  lengths and indices are naturals, the window of the moving average is an integer.
\<close>

type_synonym rounding = "real \<Rightarrow> real"

definition exact :: rounding where
  "exact x = x"

definition rne :: "real \<Rightarrow> int" where
  "rne x = (let f = \<lfloor>x\<rfloor>; d = x - of_int f in
     if d < 1/2 then f else if 1/2 < d then f + 1 else if even f then f else f + 1)"

definition ilog2 :: "real \<Rightarrow> int" where
  "ilog2 x = (if 1 \<le> x then bitlen \<lfloor>x\<rfloor> - 1 else - bitlen (\<lceil>1 / x\<rceil> - 1))"

definition pow2 :: "int \<Rightarrow> real" where
  "pow2 e = (if 0 \<le> e then 2 ^ nat e else 1 / 2 ^ nat (- e))"

definition binary64 :: rounding where
  "binary64 x = (if x = 0 then 0 else
     let u = pow2 (max (ilog2 \<bar>x\<bar> - 52) (- 1074)) in of_int (rne (x / u)) * u)"

datatype jsnum = Num real | NaN | PosInfinity | NegInfinity

datatype error = Error string

text \<open>\<^verbatim>\<open>xs.reduce((acc, val) => acc + val, 0)\<close>: the sum from the left, each addition rounded.\<close>

definition js_sum :: "rounding \<Rightarrow> real list \<Rightarrow> real" where
  "js_sum rnd xs = foldl (\<lambda>acc val. rnd (acc + val)) 0 xs"

text \<open>\<^verbatim>\<open>xs.slice(start, end)\<close> for integer arguments: a negative argument counts from the end.\<close>

definition js_slice :: "'a list \<Rightarrow> int \<Rightarrow> int \<Rightarrow> 'a list" where
  "js_slice xs start stop =
     (let len = int (length xs);
          k = (if start < 0 then max (len + start) 0 else min start len);
          fin = (if stop < 0 then max (len + stop) 0 else min stop len)
      in take (nat (fin - k)) (drop (nat k) xs))"

section \<open>Data model\<close>

record DataPoint =
  timestamp :: int
  "value" :: real

record TrendResult =
  slope :: real
  intercept :: real
  r2 :: real

datatype AggregationPeriod = hourly | daily | weekly | monthly | yearly

datatype AggregationFunction = mean_agg | sum_agg | min_agg | max_agg | count_agg | median_agg

section \<open>Moving averages\<close>

text \<open>
  \<open>calculateSimpleMovingAverage\<close>: the body of the \<^verbatim>\<open>for\<close> loop is \<open>sma_step\<close>, run for
  \<open>i = 0, ..., data.length - 1\<close>. An element of the result is \<open>Some\<close> number; \<open>None\<close> is
  the \<^verbatim>\<open>null\<close> that the result type allows.
\<close>

definition sma_step :: "rounding \<Rightarrow> real list \<Rightarrow> int \<Rightarrow> real option list \<Rightarrow> nat \<Rightarrow> real option list" where
  "sma_step rnd data windowSize result i =
     (if int i < windowSize - 1 then
        (let partialWindow = js_slice data 0 (int i + 1);
             s = js_sum rnd partialWindow
         in result @ [Some (rnd (s / real (length partialWindow)))])
      else
        (let window = js_slice data (int i - windowSize + 1) (int i + 1);
             s = js_sum rnd window
         in result @ [Some (rnd (s / real_of_int windowSize))]))"

definition calculateSimpleMovingAverage :: "rounding \<Rightarrow> real list \<Rightarrow> int \<Rightarrow> error + real option list" where
  "calculateSimpleMovingAverage rnd data windowSize =
     (if windowSize \<le> 0 \<or> windowSize > int (length data)
      then Inl (Error ''Window size must be positive and <= data length'')
      else Inr (foldl (sma_step rnd data windowSize) [] [0..<length data]))"

text \<open>
  \<open>calculateExponentialMovingAverage\<close>: the loop runs for \<open>i = 1, ..., data.length - 1\<close>;
  an index that reads \<^verbatim>\<open>undefined\<close> is skipped.
\<close>

definition ema_step :: "rounding \<Rightarrow> real list \<Rightarrow> real \<Rightarrow> real list \<Rightarrow> nat \<Rightarrow> real list" where
  "ema_step rnd data alpha result i =
     (if i < length data \<and> i - 1 < length result then
        (let currentVal = data ! i; prevEma = result ! (i - 1);
             ema = rnd (rnd (alpha * currentVal) + rnd (rnd (1 - alpha) * prevEma))
         in result @ [ema])
      else result)"

definition calculateExponentialMovingAverage :: "rounding \<Rightarrow> real list \<Rightarrow> real \<Rightarrow> error + real list" where
  "calculateExponentialMovingAverage rnd data alpha =
     (if alpha \<le> 0 \<or> alpha > 1 then Inl (Error ''Alpha must be in range (0, 1]'')
      else if length data = 0 then Inr []
      else (case data of
              [] \<Rightarrow> Inr []
            | firstVal # _ \<Rightarrow> Inr (foldl (ema_step rnd data alpha) [firstVal] [1..<length data])))"

section \<open>Filters\<close>

definition filterByValueRange :: "DataPoint list \<Rightarrow> real option \<Rightarrow> real option \<Rightarrow> DataPoint list" where
  "filterByValueRange data min' max' =
     filter (\<lambda>point.
       if min' \<noteq> None \<and> value point < the min' then False
       else if max' \<noteq> None \<and> value point > the max' then False
       else True) data"

text \<open>
  \<open>filterByDateRange\<close>: \<open>startDate\<close> and \<open>endDate\<close> are the time values
  (\<^verbatim>\<open>getTime()\<close>) of the optional dates.
\<close>

definition filterByDateRange :: "DataPoint list \<Rightarrow> int option \<Rightarrow> int option \<Rightarrow> DataPoint list" where
  "filterByDateRange data startDate endDate =
     (let startTime = startDate; endTime = endDate in
      filter (\<lambda>point.
        if startTime \<noteq> None \<and> timestamp point < the startTime then False
        else if endTime \<noteq> None \<and> timestamp point > the endTime then False
        else True) data)"

section \<open>Linear trend\<close>

text \<open>
  \<open>calculateLinearTrend\<close>: the first loop accumulates \<open>(numerator, denominator)\<close>, the
  second \<open>(ssTotal, ssResidual)\<close>; an index that reads \<^verbatim>\<open>undefined\<close> is skipped.
\<close>

definition trend_fit_step :: "rounding \<Rightarrow> real list \<Rightarrow> real list \<Rightarrow> real \<Rightarrow> real \<Rightarrow> real \<times> real \<Rightarrow> nat \<Rightarrow> real \<times> real" where
  "trend_fit_step rnd x y xMean yMean acc i =
     (case acc of (numerator, denominator) \<Rightarrow>
        if i < length x \<and> i < length y then
          (let xVal = x ! i; yVal = y ! i;
               xDiff = rnd (xVal - xMean);
               yDiff = rnd (yVal - yMean)
           in (rnd (numerator + rnd (xDiff * yDiff)), rnd (denominator + rnd (xDiff * xDiff))))
        else acc)"

definition trend_r2_step :: "rounding \<Rightarrow> real list \<Rightarrow> real list \<Rightarrow> real \<Rightarrow> real \<Rightarrow> real \<Rightarrow> real \<times> real \<Rightarrow> nat \<Rightarrow> real \<times> real" where
  "trend_r2_step rnd x y slope' intercept' yMean acc i =
     (case acc of (ssTotal, ssResidual) \<Rightarrow>
        if i < length x \<and> i < length y then
          (let xVal = x ! i; yVal = y ! i;
               yPredicted = rnd (rnd (slope' * xVal) + intercept')
           in (rnd (ssTotal + rnd ((rnd (yVal - yMean)) ^ 2)),
               rnd (ssResidual + rnd ((rnd (yVal - yPredicted)) ^ 2))))
        else acc)"

definition calculateLinearTrend :: "rounding \<Rightarrow> real list \<Rightarrow> real list \<Rightarrow> error + TrendResult" where
  "calculateLinearTrend rnd x y =
     (if length x \<noteq> length y \<or> length x = 0
      then Inl (Error ''X and Y arrays must have the same non-zero length'')
      else
        (let n = length x;
             xMean = rnd (js_sum rnd x / real n);
             yMean = rnd (js_sum rnd y / real n);
             fit = foldl (trend_fit_step rnd x y xMean yMean) (0, 0) [0..<n];
             numerator = fst fit;
             denominator = snd fit;
             slope' = (if denominator = 0 then 0 else rnd (numerator / denominator));
             intercept' = rnd (yMean - rnd (slope' * xMean));
             ss = foldl (trend_r2_step rnd x y slope' intercept' yMean) (0, 0) [0..<n];
             ssTotal = fst ss;
             ssResidual = snd ss;
             r2' = (if ssTotal = 0 then 0 else rnd (1 - rnd (ssResidual / ssTotal)))
         in Inr \<lparr>slope = slope', intercept = intercept', r2 = r2'\<rparr>))"

section \<open>Aggregation by calendar period\<close>

text \<open>
  \<open>getPeriodStart\<close> works on a \<^verbatim>\<open>Date\<close> object of the host, which holds a time value
  (epoch milliseconds) and reads and writes it in the local time zone. The methods that
  the code calls are a parameter: each takes the time value of the date first, and a
  setter returns the new time value. \<open>utc_date\<close> below is the host whose local time zone
  is UTC.
\<close>

record Date_api =
  setMinutes :: "int \<Rightarrow> int \<Rightarrow> int \<Rightarrow> int \<Rightarrow> int"
  setHours :: "int \<Rightarrow> int \<Rightarrow> int \<Rightarrow> int \<Rightarrow> int \<Rightarrow> int"
  getDay :: "int \<Rightarrow> int"
  getDate :: "int \<Rightarrow> int"
  setDate :: "int \<Rightarrow> int \<Rightarrow> int"
  setMonth :: "int \<Rightarrow> int \<Rightarrow> int \<Rightarrow> int"

fun getPeriodStart :: "Date_api \<Rightarrow> int \<Rightarrow> AggregationPeriod \<Rightarrow> int" where
  "getPeriodStart api date hourly = setMinutes api date 0 0 0"
| "getPeriodStart api date daily = setHours api date 0 0 0 0"
| "getPeriodStart api date weekly =
     (let dayOfWeek = getDay api date;
          diff = (if dayOfWeek = 0 then 6 else dayOfWeek - 1);
          date1 = setDate api date (getDate api date - diff)
      in setHours api date1 0 0 0 0)"
| "getPeriodStart api date monthly = setHours api (setDate api date 1) 0 0 0 0"
| "getPeriodStart api date yearly = setHours api (setMonth api date 0 1) 0 0 0 0"

text \<open>The proleptic Gregorian calendar: the day number (days since 1970-01-01) of a date and back.\<close>

definition days_from_civil :: "int \<Rightarrow> int \<Rightarrow> int \<Rightarrow> int" where
  "days_from_civil y m d =
     (let y' = (if m \<le> 2 then y - 1 else y);
          era = y' div 400;
          yoe = y' - era * 400;
          doy = (153 * (if m > 2 then m - 3 else m + 9) + 2) div 5 + d - 1;
          doe = yoe * 365 + yoe div 4 - yoe div 100 + doy
      in era * 146097 + doe - 719468)"

definition civil_from_days :: "int \<Rightarrow> int \<times> int \<times> int" where
  "civil_from_days z =
     (let z' = z + 719468;
          era = z' div 146097;
          doe = z' - era * 146097;
          yoe = (doe - doe div 1460 + doe div 36524 - doe div 146096) div 365;
          doy = doe - (365 * yoe + yoe div 4 - yoe div 100);
          mp = (5 * doy + 2) div 153;
          d = doy - (153 * mp + 2) div 5 + 1;
          m = (if mp < 10 then mp + 3 else mp - 9);
          y = yoe + era * 400
      in (if m \<le> 2 then y + 1 else y, m, d))"

definition msPerDay :: int where
  "msPerDay = 86400000"

text \<open>\<open>make_day year month date\<close>: the day number of the given day of the given month (0 to 11, carried into the year).\<close>

definition make_day :: "int \<Rightarrow> int \<Rightarrow> int \<Rightarrow> int" where
  "make_day year month date = days_from_civil (year + month div 12) (month mod 12 + 1) 1 + date - 1"

definition utc_date :: Date_api where
  "utc_date = \<lparr>
     setMinutes = (\<lambda>t m s ms. t - t mod 3600000 + (m * 60 + s) * 1000 + ms),
     setHours = (\<lambda>t h m s ms. t - t mod msPerDay + ((h * 60 + m) * 60 + s) * 1000 + ms),
     getDay = (\<lambda>t. (t div msPerDay + 4) mod 7),
     getDate = (\<lambda>t. snd (snd (civil_from_days (t div msPerDay)))),
     setDate = (\<lambda>t d. case civil_from_days (t div msPerDay) of
                  (y, m, _) \<Rightarrow> make_day y (m - 1) d * msPerDay + t mod msPerDay),
     setMonth = (\<lambda>t m d. case civil_from_days (t div msPerDay) of
                  (y, _, _) \<Rightarrow> make_day y m d * msPerDay + t mod msPerDay) \<rparr>"

text \<open>\<^verbatim>\<open>xs[i] ?? 0\<close>: the element, or 0 where the index is out of range.\<close>

definition nth_or_0 :: "real list \<Rightarrow> nat \<Rightarrow> real" where
  "nth_or_0 xs i = (if i < length xs then xs ! i else 0)"

text \<open>
  \<open>applyAggregationFunction\<close>: \<^verbatim>\<open>[...values].sort((a, b) => a - b)\<close> is the ascending
  sort; \<^verbatim>\<open>Math.min(...values)\<close> and \<^verbatim>\<open>Math.max(...values)\<close> of a non-empty list are its
  least and greatest element.
\<close>

definition applyAggregationFunction :: "rounding \<Rightarrow> real list \<Rightarrow> AggregationFunction \<Rightarrow> jsnum" where
  "applyAggregationFunction rnd values func =
     (if length values = 0 then NaN
      else (case func of
          mean_agg \<Rightarrow> Num (rnd (js_sum rnd values / real (length values)))
        | sum_agg \<Rightarrow> Num (js_sum rnd values)
        | min_agg \<Rightarrow> Num (fold min (tl values) (hd values))
        | max_agg \<Rightarrow> Num (fold max (tl values) (hd values))
        | count_agg \<Rightarrow> Num (real (length values))
        | median_agg \<Rightarrow>
            (let sorted = sort values;
                 mid = length sorted div 2
             in if length sorted mod 2 = 0 then
                  (let val1 = nth_or_0 sorted (mid - 1);
                       val2 = nth_or_0 sorted mid
                   in Num (rnd (rnd (val1 + val2) / 2)))
                else Num (nth_or_0 sorted mid))))"

text \<open>
  The \<^verbatim>\<open>Map\<close> from period start to values keeps its keys in insertion order: an
  association list with distinct keys.
\<close>

type_synonym groups = "(int \<times> real list) list"

definition groups_has :: "groups \<Rightarrow> int \<Rightarrow> bool" where
  "groups_has groups k = (k \<in> set (map fst groups))"

definition groups_set :: "groups \<Rightarrow> int \<Rightarrow> real list \<Rightarrow> groups" where
  "groups_set groups k vs =
     (if groups_has groups k then map (\<lambda>(k', vs'). if k' = k then (k', vs) else (k', vs')) groups
      else groups @ [(k, vs)])"

text \<open>\<^verbatim>\<open>groups.get(k)!.push(v)\<close>\<close>

definition groups_push :: "groups \<Rightarrow> int \<Rightarrow> real \<Rightarrow> groups" where
  "groups_push groups k v = map (\<lambda>(k', vs'). if k' = k then (k', vs' @ [v]) else (k', vs')) groups"

definition group_step :: "Date_api \<Rightarrow> AggregationPeriod \<Rightarrow> groups \<Rightarrow> DataPoint \<Rightarrow> groups" where
  "group_step api period groups point =
     (let periodStart = getPeriodStart api (timestamp point) period;
          groups1 = (if \<not> groups_has groups periodStart then groups_set groups periodStart [] else groups)
      in groups_push groups1 periodStart (value point))"

text \<open>
  The body of \<^verbatim>\<open>groups.forEach\<close>. A group is never empty, so its aggregate is a number;
  the aggregate \<^verbatim>\<open>NaN\<close> of an empty group, which \<open>DataPoint\<close> does not hold, adds no point.
\<close>

definition aggregate_step :: "rounding \<Rightarrow> AggregationFunction \<Rightarrow> DataPoint list \<Rightarrow> int \<times> real list \<Rightarrow> DataPoint list" where
  "aggregate_step rnd func result entry =
     (case entry of (timestamp', values) \<Rightarrow>
        (case applyAggregationFunction rnd values func of
           Num aggregatedValue \<Rightarrow> result @ [\<lparr>timestamp = timestamp', value = aggregatedValue\<rparr>]
         | _ \<Rightarrow> result))"

definition aggregateByTimePeriod :: "Date_api \<Rightarrow> rounding \<Rightarrow> DataPoint list \<Rightarrow> AggregationPeriod \<Rightarrow> AggregationFunction \<Rightarrow> DataPoint list" where
  "aggregateByTimePeriod api rnd data period func =
     (if length data = 0 then []
      else
        (let groups = foldl (group_step api period) [] data;
             result = foldl (aggregate_step rnd func) [] groups
         in sort_key timestamp result))"

section \<open>Anomalies and outliers\<close>

text \<open>
  The z-score is the one quotient of the code whose divisor can be zero; \<open>Math.sqrt\<close> of
  a negative number is \<^verbatim>\<open>NaN\<close>.
\<close>

definition js_sqrt :: "rounding \<Rightarrow> real \<Rightarrow> jsnum" where
  "js_sqrt rnd v = (if v < 0 then NaN else Num (rnd (sqrt v)))"

definition js_div :: "rounding \<Rightarrow> real \<Rightarrow> jsnum \<Rightarrow> jsnum" where
  "js_div rnd a b =
     (case b of
        Num d \<Rightarrow> (if d = 0 then (if a = 0 then NaN else if 0 < a then PosInfinity else NegInfinity)
                  else Num (rnd (a / d)))
      | NaN \<Rightarrow> NaN
      | _ \<Rightarrow> Num 0)"

definition js_abs :: "jsnum \<Rightarrow> jsnum" where
  "js_abs z = (case z of Num v \<Rightarrow> Num \<bar>v\<bar> | NaN \<Rightarrow> NaN | _ \<Rightarrow> PosInfinity)"

definition js_gt :: "jsnum \<Rightarrow> real \<Rightarrow> bool" where
  "js_gt z t = (case z of Num v \<Rightarrow> v > t | PosInfinity \<Rightarrow> True | _ \<Rightarrow> False)"

definition data_mean :: "rounding \<Rightarrow> real list \<Rightarrow> real" where
  "data_mean rnd data = rnd (js_sum rnd data / real (length data))"

definition data_variance :: "rounding \<Rightarrow> real list \<Rightarrow> real" where
  "data_variance rnd data =
     rnd (foldl (\<lambda>sum' val. rnd (sum' + rnd ((rnd (val - data_mean rnd data)) ^ 2))) 0 data
          / real (length data))"

definition anomaly_step :: "rounding \<Rightarrow> real \<Rightarrow> jsnum \<Rightarrow> real \<Rightarrow> nat list \<Rightarrow> real \<times> nat \<Rightarrow> nat list" where
  "anomaly_step rnd mean' stdDev threshold anomalyIndices entry =
     (case entry of (value', index) \<Rightarrow>
        (let zScore = js_abs (js_div rnd (rnd (value' - mean')) stdDev)
         in if js_gt zScore threshold then anomalyIndices @ [index] else anomalyIndices))"

definition detectAnomalies :: "rounding \<Rightarrow> real list \<Rightarrow> real \<Rightarrow> nat list" where
  "detectAnomalies rnd data threshold =
     (if length data = 0 \<or> threshold \<le> 0 then []
      else
        (let mean' = data_mean rnd data;
             variance = data_variance rnd data;
             stdDev = js_sqrt rnd variance
         in foldl (anomaly_step rnd mean' stdDev threshold) [] (zip data [0..<length data])))"

record IQRResult =
  q1 :: real
  q3 :: real
  iqr :: real
  lowerBound :: real
  upperBound :: real
  outlierIndices :: "nat list"

definition outlier_step :: "real \<Rightarrow> real \<Rightarrow> nat list \<Rightarrow> real \<times> nat \<Rightarrow> nat list" where
  "outlier_step lowerBound' upperBound' outlierIndices' entry =
     (case entry of (value', index) \<Rightarrow>
        if value' < lowerBound' \<or> value' > upperBound' then outlierIndices' @ [index]
        else outlierIndices')"

definition calculateIQR :: "rounding \<Rightarrow> real list \<Rightarrow> IQRResult" where
  "calculateIQR rnd data =
     (if length data = 0
      then \<lparr>q1 = 0, q3 = 0, iqr = 0, lowerBound = 0, upperBound = 0, outlierIndices = []\<rparr>
      else
        (let sorted = sort data;
             n = length sorted;
             q1Index = nat \<lfloor>rnd (real n * 0.25)\<rfloor>;
             q3Index = nat \<lfloor>rnd (real n * 0.75)\<rfloor>;
             q1' = nth_or_0 sorted q1Index;
             q3' = nth_or_0 sorted q3Index;
             iqr' = rnd (q3' - q1');
             lowerBound' = rnd (q1' - rnd (1.5 * iqr'));
             upperBound' = rnd (q3' + rnd (1.5 * iqr'));
             outlierIndices' = foldl (outlier_step lowerBound' upperBound') [] (zip data [0..<length data])
         in \<lparr>q1 = q1', q3 = q3', iqr = iqr', lowerBound = lowerBound', upperBound = upperBound',
             outlierIndices = outlierIndices'\<rparr>))"

section \<open>The analysis panel\<close>

text \<open>
  The state of \<^verbatim>\<open>AnalysisPanel\<close> (\<^verbatim>\<open>src/components/AnalysisPanel.tsx\<close>) and the
  recomputation of \<open>processedData\<close> from the raw data and that state. A date of the date
  range is its time value. An exception thrown by a stage leaves the recomputation: the
  result is then \<open>Inl\<close> of the error.
\<close>

record DateRange =
  startDate :: "int option"
  endDate :: "int option"

record ValueRange =
  min_bound :: "real option"
  max_bound :: "real option"
  excludeOutliers :: bool

datatype MovingAverageType = none | sma | ema

record MovingAverageSettings =
  ma_type :: MovingAverageType
  ma_windowSize :: int
  ma_alpha :: real
  ma_visible :: bool

record TrendLineSettings =
  tl_enabled :: bool
  tl_trendData :: "TrendResult option"

record AggregationSettings =
  agg_enabled :: bool
  agg_period :: AggregationPeriod
  agg_func :: AggregationFunction

record AnomalySettings =
  an_enabled :: bool
  an_threshold :: real
  an_excludeFromStats :: bool

record Anomaly =
  a_index :: nat
  a_timestamp :: int
  a_value :: real
  zScore :: jsnum

record AnalysisState =
  dateRange :: DateRange
  valueRange :: ValueRange
  movingAverage :: MovingAverageSettings
  trendLine :: TrendLineSettings
  aggregation :: AggregationSettings
  anomaly :: AnomalySettings

record ProcessedData =
  filteredData :: "DataPoint list"
  movingAverageData :: "real option list option"
  trendData :: "TrendResult option"
  aggregatedData :: "DataPoint list option"
  anomalies :: "Anomaly list"

text \<open>Step 4 of the recomputation: the moving average.\<close>

definition movingAverageStage :: "rounding \<Rightarrow> MovingAverageSettings \<Rightarrow> DataPoint list \<Rightarrow> error + real option list option" where
  "movingAverageStage rnd settings dataForAnalysis =
     (if ma_type settings \<noteq> none \<and> ma_visible settings \<and> length dataForAnalysis > 0 then
        (let values = map value dataForAnalysis in
         if ma_type settings = sma then
           (case calculateSimpleMovingAverage rnd values (ma_windowSize settings) of
              Inl e \<Rightarrow> Inl e
            | Inr r \<Rightarrow> Inr (Some r))
         else if ma_type settings = ema then
           (case calculateExponentialMovingAverage rnd values (ma_alpha settings) of
              Inl e \<Rightarrow> Inl e
            | Inr r \<Rightarrow> Inr (Some (map Some r)))
         else Inr None)
      else Inr None)"

text \<open>Step 5: the trend line.\<close>

definition trendStage :: "rounding \<Rightarrow> TrendLineSettings \<Rightarrow> DataPoint list \<Rightarrow> error + TrendResult option" where
  "trendStage rnd settings dataForAnalysis =
     (if tl_enabled settings \<and> length dataForAnalysis \<ge> 2 then
        (let x = map (\<lambda>d. real_of_int (timestamp d)) dataForAnalysis;
             y = map value dataForAnalysis
         in case calculateLinearTrend rnd x y of
              Inl e \<Rightarrow> Inl e
            | Inr t \<Rightarrow> Inr (Some t))
      else Inr None)"

text \<open>Step 6: the anomalies, each with its z-score.\<close>

definition anomalyStage :: "rounding \<Rightarrow> AnomalySettings \<Rightarrow> DataPoint list \<Rightarrow> Anomaly list" where
  "anomalyStage rnd settings dataForAnalysis =
     (if an_enabled settings \<and> length dataForAnalysis > 0 then
        (let values = map value dataForAnalysis;
             indices = detectAnomalies rnd values (an_threshold settings);
             mean' = rnd (js_sum rnd values / real (length values));
             variance = rnd (foldl (\<lambda>sum' v. rnd (sum' + rnd ((rnd (v - mean')) ^ 2))) 0 values
                              / real (length values));
             stdDev = js_sqrt rnd variance
         in concat (map (\<lambda>index'.
              if index' < length dataForAnalysis then
                (let point = dataForAnalysis ! index' in
                 [\<lparr>a_index = index', a_timestamp = timestamp point, a_value = value point,
                   zScore = js_div rnd (rnd (value point - mean')) stdDev\<rparr>])
              else []) indices))
      else [])"

definition processedData :: "Date_api \<Rightarrow> rounding \<Rightarrow> DataPoint list \<Rightarrow> AnalysisState \<Rightarrow> error + ProcessedData" where
  "processedData api rnd rawData st =
     (if length rawData = 0 then
        Inr \<lparr>filteredData = [], movingAverageData = None, trendData = None,
             aggregatedData = None, anomalies = []\<rparr>
      else
        (let filtered0 =
               (if startDate (dateRange st) \<noteq> None \<or> endDate (dateRange st) \<noteq> None
                then filterByDateRange rawData (startDate (dateRange st)) (endDate (dateRange st))
                else rawData);
             filtered =
               (if min_bound (valueRange st) \<noteq> None \<or> max_bound (valueRange st) \<noteq> None
                then filterByValueRange filtered0 (min_bound (valueRange st)) (max_bound (valueRange st))
                else filtered0);
             aggregatedData' =
               (if agg_enabled (aggregation st) \<and> length filtered > 0
                then Some (aggregateByTimePeriod api rnd filtered (agg_period (aggregation st)) (agg_func (aggregation st)))
                else None);
             dataForAnalysis = (case aggregatedData' of Some a \<Rightarrow> a | None \<Rightarrow> filtered)
         in case movingAverageStage rnd (movingAverage st) dataForAnalysis of
              Inl e \<Rightarrow> Inl e
            | Inr movingAverageData' \<Rightarrow>
                (case trendStage rnd (trendLine st) dataForAnalysis of
                   Inl e \<Rightarrow> Inl e
                 | Inr trendData' \<Rightarrow>
                     Inr \<lparr>filteredData = filtered, movingAverageData = movingAverageData',
                          trendData = trendData', aggregatedData = aggregatedData',
                          anomalies = anomalyStage rnd (anomaly st) dataForAnalysis\<rparr>)))"

text \<open>The initial state of the panel, and the state after the user selects the simple moving average.\<close>

definition initialState :: AnalysisState where
  "initialState = \<lparr>
     dateRange = \<lparr>startDate = None, endDate = None\<rparr>,
     valueRange = \<lparr>min_bound = None, max_bound = None, excludeOutliers = False\<rparr>,
     movingAverage = \<lparr>ma_type = none, ma_windowSize = 7, ma_alpha = 0.3, ma_visible = True\<rparr>,
     trendLine = \<lparr>tl_enabled = False, tl_trendData = None\<rparr>,
     aggregation = \<lparr>agg_enabled = False, agg_period = daily, agg_func = mean_agg\<rparr>,
     anomaly = \<lparr>an_enabled = False, an_threshold = 2.0, an_excludeFromStats = False\<rparr> \<rparr>"

definition smaSelected :: AnalysisState where
  "smaSelected = initialState \<lparr>movingAverage := (movingAverage initialState) \<lparr>ma_type := sma\<rparr> \<rparr>"

section \<open>Notions the properties are stated with\<close>

text \<open>The mean of a non-empty list in the arithmetic of numbers: the rounded sum from the left, divided by the length.\<close>

definition js_mean :: "rounding \<Rightarrow> real list \<Rightarrow> real" where
  "js_mean rnd xs = rnd (js_sum rnd xs / real (length xs))"

text \<open>The element that the moving average holds at index \<open>i\<close>.\<close>

definition sma_elem :: "rounding \<Rightarrow> real list \<Rightarrow> int \<Rightarrow> nat \<Rightarrow> real option" where
  "sma_elem rnd data w i =
     (if int i < w - 1 then Some (js_mean rnd (take (i + 1) data))
      else Some (rnd (js_sum rnd (take (nat w) (drop (i + 1 - nat w) data)) / real_of_int w)))"

text \<open>One step of the exponential moving average.\<close>

definition ema_next :: "rounding \<Rightarrow> real \<Rightarrow> real \<Rightarrow> real \<Rightarrow> real" where
  "ema_next rnd alpha v prev = rnd (rnd (alpha * v) + rnd (rnd (1 - alpha) * prev))"



text \<open>The data point with a given timestamp and value.\<close>

definition pt :: "int \<Rightarrow> real \<Rightarrow> DataPoint" where
  "pt t v = \<lparr>timestamp = t, value = v\<rparr>"

text \<open>The bucket of a point, and the values of the points of a bucket, in the order of the series.\<close>

definition bucket_of :: "Date_api \<Rightarrow> AggregationPeriod \<Rightarrow> DataPoint \<Rightarrow> int" where
  "bucket_of api period p = getPeriodStart api (timestamp p) period"

definition bucket_values :: "Date_api \<Rightarrow> AggregationPeriod \<Rightarrow> int \<Rightarrow> DataPoint list \<Rightarrow> real list" where
  "bucket_values api period k ds = map value (filter (\<lambda>p. bucket_of api period p = k) ds)"

text \<open>The number that a \<open>jsnum\<close> holds.\<close>

definition num_of :: "jsnum \<Rightarrow> real" where
  "num_of z = (case z of Num v \<Rightarrow> v | _ \<Rightarrow> 0)"

text \<open>The aggregated point of a bucket.\<close>

definition bucket_point :: "Date_api \<Rightarrow> rounding \<Rightarrow> AggregationPeriod \<Rightarrow> AggregationFunction \<Rightarrow> DataPoint list \<Rightarrow> int \<Rightarrow> DataPoint" where
  "bucket_point api rnd period func ds k =
     \<lparr>timestamp = k, value = num_of (applyAggregationFunction rnd (bucket_values api period k ds) func)\<rparr>"




text \<open>The binary64 number nearest to 0.1, and the same number scaled by \<open>2 ^ -600\<close>.\<close>

definition tenth :: real where
  "tenth = 3602879701896397 / 36028797018963968"

definition tiny :: real where
  "tiny = 3602879701896397 / 149502054158244092924433911175587146134101311725520811805218980426523448679093940601025751001247626027946551200107541538756647476310030352326743206124657514520641361489437161884315621531536712531968"

section \<open>Properties of the moving averages\<close>

lemma js_sum_exact: "js_sum exact xs = sum_list xs"
proof -
  have "foldl (\<lambda>acc val. acc + val) a xs = a + sum_list xs" for a :: real
    by (induction xs arbitrary: a) simp_all
  then show ?thesis by (simp add: js_sum_def exact_def)
qed

lemma js_slice_prefix: "n \<le> length xs \<Longrightarrow> js_slice xs 0 (int n) = take n xs"
  by (simp add: js_slice_def Let_def min_def)

lemma js_slice_window:
  "a \<le> b \<Longrightarrow> b \<le> length xs \<Longrightarrow> js_slice xs (int a) (int b) = take (b - a) (drop a xs)"
  by (simp add: js_slice_def Let_def min_def nat_diff_distrib')

lemma sma_step_elem:
  assumes "0 < w" "i < length data"
  shows "sma_step rnd data w result i = result @ [sma_elem rnd data w i]"
proof (cases "int i < w - 1")
  case True
  have "js_slice data 0 (int i + 1) = take (i + 1) data"
    using js_slice_prefix [of "i + 1" data] assms by (simp add: add.commute)
  with True show ?thesis
    using assms by (simp add: sma_step_def sma_elem_def js_mean_def Let_def)
next
  case False
  then have le: "nat w \<le> i + 1" using assms by linarith
  have "js_slice data (int (i + 1 - nat w)) (int (i + 1)) = take (i + 1 - (i + 1 - nat w)) (drop (i + 1 - nat w) data)"
    using assms by (intro js_slice_window) simp_all
  moreover have "int (i + 1 - nat w) = int i - w + 1" using le assms by linarith
  moreover have "i + 1 - (i + 1 - nat w) = nat w" using le by simp
  ultimately have "js_slice data (int i - w + 1) (int i + 1) = take (nat w) (drop (i + 1 - nat w) data)"
    by (simp add: algebra_simps)
  with False show ?thesis
    by (simp add: sma_step_def sma_elem_def Let_def)
qed

lemma sma_loop:
  assumes "0 < w" "n \<le> length data"
  shows "foldl (sma_step rnd data w) acc [0..<n] = acc @ map (sma_elem rnd data w) [0..<n]"
  using assms(2)
proof (induction n)
  case 0
  then show ?case by simp
next
  case (Suc n)
  then show ?case using assms(1) by (simp add: sma_step_elem)
qed

text \<open>
  Claim C3. \<open>calculateSimpleMovingAverage\<close> throws exactly when the window is at most 0
  or larger than the length of the input. Otherwise the result has the length of the
  input, no element is \<^verbatim>\<open>null\<close>, the element at an index \<open>i < window - 1\<close> is the mean of
  \<open>values[0..i]\<close> and the element at an index \<open>i \<ge> window - 1\<close> is the mean of
  \<open>values[i - window + 1..i]\<close>. This holds for every rounding of the arithmetic; without
  rounding the mean is the sum divided by the number of values. In binary64 arithmetic the
  input \<open>[1,2,3,4,5]\<close> with window 3 gives \<open>[1, 1.5, 2, 3, 4]\<close>.
\<close>

theorem sma_spec:
  "((\<exists>e. calculateSimpleMovingAverage rnd data w = Inl e) \<longleftrightarrow> (w \<le> 0 \<or> int (length data) < w)) \<and>
   (\<not> (w \<le> 0 \<or> int (length data) < w) \<longrightarrow>
      (\<exists>res. calculateSimpleMovingAverage rnd data w = Inr res \<and> length res = length data \<and>
         (\<forall>i < length data. res ! i \<noteq> None \<and>
            (int i < w - 1 \<longrightarrow> res ! i = Some (js_mean rnd (take (i + 1) data))) \<and>
            (w - 1 \<le> int i \<longrightarrow> res ! i = Some (js_mean rnd (take (nat w) (drop (i + 1 - nat w) data))))))) \<and>
   (\<forall>xs. js_mean exact xs = sum_list xs / real (length xs)) \<and>
   calculateSimpleMovingAverage binary64 [1, 2, 3, 4, 5] 3 = Inr [Some 1, Some 1.5, Some 2, Some 3, Some 4]"
proof (intro conjI impI allI)
  show "(\<exists>e. calculateSimpleMovingAverage rnd data w = Inl e) \<longleftrightarrow> (w \<le> 0 \<or> int (length data) < w)"
    by (auto simp: calculateSimpleMovingAverage_def)
next
  assume ok: "\<not> (w \<le> 0 \<or> int (length data) < w)"
  then have w: "0 < w" "nat w \<le> length data" by auto
  let ?res = "map (sma_elem rnd data w) [0..<length data]"
  have eq: "calculateSimpleMovingAverage rnd data w = Inr ?res"
    using ok sma_loop [OF w(1) order_refl, where rnd = rnd and acc = "[]"]
    by (simp add: calculateSimpleMovingAverage_def)
  have "res_i \<noteq> None \<and>
            (int i < w - 1 \<longrightarrow> res_i = Some (js_mean rnd (take (i + 1) data))) \<and>
            (w - 1 \<le> int i \<longrightarrow> res_i = Some (js_mean rnd (take (nat w) (drop (i + 1 - nat w) data))))"
    if "i < length data" "res_i = ?res ! i" for i res_i
  proof -
    have r: "res_i = sma_elem rnd data w i" using that by simp
    have "length (take (nat w) (drop (i + 1 - nat w) data)) = nat w" if "w - 1 \<le> int i"
      using that w \<open>i < length data\<close> by simp
    then show ?thesis using w by (auto simp: r sma_elem_def js_mean_def)
  qed
  then show "\<exists>res. calculateSimpleMovingAverage rnd data w = Inr res \<and> length res = length data \<and>
         (\<forall>i < length data. res ! i \<noteq> None \<and>
            (int i < w - 1 \<longrightarrow> res ! i = Some (js_mean rnd (take (i + 1) data))) \<and>
            (w - 1 \<le> int i \<longrightarrow> res ! i = Some (js_mean rnd (take (nat w) (drop (i + 1 - nat w) data)))))"
    using eq by (intro exI [of _ ?res]) simp
next
  show "js_mean exact xs = sum_list xs / real (length xs)" for xs
    by (simp add: js_mean_def js_sum_exact exact_def)
next
  show "calculateSimpleMovingAverage binary64 [1, 2, 3, 4, 5] 3 = Inr [Some 1, Some 1.5, Some 2, Some 3, Some 4]"
    by code_simp
qed

theorem sma_spec_witness:
  "\<not> ((3::int) \<le> 0 \<or> int (length [1, 2, 3, 4, 5 :: real]) < 3) \<and>
   (\<exists>res. calculateSimpleMovingAverage exact [1, 2, 3, 4, 5] 3 = Inr res \<and> length res = 5 \<and>
      res ! 1 = Some (3 / 2) \<and> res ! 3 = Some 3)"
proof -
  let ?d = "[1, 2, 3, 4, 5 :: real]"
  have ok: "\<not> ((3::int) \<le> 0 \<or> int (length ?d) < 3)" by simp
  from sma_spec [of exact ?d 3] ok
  obtain res where r: "calculateSimpleMovingAverage exact ?d 3 = Inr res" "length res = length ?d"
    and el: "\<forall>i < length ?d. res ! i \<noteq> None \<and>
            (int i < 3 - 1 \<longrightarrow> res ! i = Some (js_mean exact (take (i + 1) ?d))) \<and>
            ((3::int) - 1 \<le> int i \<longrightarrow> res ! i = Some (js_mean exact (take (nat 3) (drop (i + 1 - nat 3) ?d))))"
    by blast
  have m: "js_mean exact xs = sum_list xs / real (length xs)" for xs
    using sma_spec [of exact ?d 3] by blast
  from el have "res ! 1 = Some (js_mean exact (take 2 ?d))" by force
  then have e1: "res ! 1 = Some (3 / 2)" by (simp add: m)
  from el have "res ! 3 = Some (js_mean exact (take (nat 3) (drop (3 + 1 - nat 3) ?d)))" by force
  then have e3: "res ! 3 = Some 3" by (simp add: m)
  show ?thesis using ok r e1 e3 by simp
qed

lemma ema_loop:
  assumes "data = firstVal # rest" "1 \<le> n" "n \<le> length data"
  shows "length (foldl (ema_step rnd data alpha) [firstVal] [1..<n]) = n \<and>
         foldl (ema_step rnd data alpha) [firstVal] [1..<n] ! 0 = firstVal \<and>
         (\<forall>t. 0 < t \<and> t < n \<longrightarrow>
            foldl (ema_step rnd data alpha) [firstVal] [1..<n] ! t =
            ema_next rnd alpha (data ! t) (foldl (ema_step rnd data alpha) [firstVal] [1..<n] ! (t - 1)))"
  using assms(2,3)
proof (induction n)
  case 0
  then show ?case by simp
next
  case (Suc n)
  show ?case
  proof (cases "n = 0")
    case True
    then show ?thesis by simp
  next
    case False
    let ?r = "foldl (ema_step rnd data alpha) [firstVal] [1..<n]"
    from False Suc have ih: "length ?r = n" "?r ! 0 = firstVal"
      "\<forall>t. 0 < t \<and> t < n \<longrightarrow> ?r ! t = ema_next rnd alpha (data ! t) (?r ! (t - 1))"
      by auto
    have step: "foldl (ema_step rnd data alpha) [firstVal] [1..<Suc n] =
        ?r @ [ema_next rnd alpha (data ! n) (?r ! (n - 1))]"
      using False Suc.prems ih(1) by (simp add: ema_step_def ema_next_def Let_def)
    show ?thesis
      unfolding step using ih False
      by (auto simp: nth_append less_Suc_eq)
  qed
qed

text \<open>
  Claim C4. \<open>calculateExponentialMovingAverage\<close> throws exactly when \<open>alpha \<le> 0\<close> or
  \<open>alpha > 1\<close>. Otherwise the result has the length of the input, an empty input gives
  an empty result, the first output is the first input and every later output is
  \<open>alpha * value[t] + (1 - alpha) * EMA[t - 1]\<close>, computed in the arithmetic of numbers.
  In binary64 arithmetic \<open>[10,20,30]\<close> with \<open>alpha = 0.5\<close> gives \<open>[10, 15, 22.5]\<close>.
\<close>

theorem ema_spec:
  "((\<exists>e. calculateExponentialMovingAverage rnd data alpha = Inl e) \<longleftrightarrow> (alpha \<le> 0 \<or> 1 < alpha)) \<and>
   (\<not> (alpha \<le> 0 \<or> 1 < alpha) \<longrightarrow>
      (\<exists>res. calculateExponentialMovingAverage rnd data alpha = Inr res \<and> length res = length data \<and>
         (data = [] \<longrightarrow> res = []) \<and>
         (data \<noteq> [] \<longrightarrow> res ! 0 = data ! 0) \<and>
         (\<forall>t. 0 < t \<and> t < length data \<longrightarrow>
            res ! t = rnd (rnd (alpha * data ! t) + rnd (rnd (1 - alpha) * res ! (t - 1)))))) \<and>
   calculateExponentialMovingAverage binary64 [10, 20, 30] 0.5 = Inr [10, 15, 22.5]"
proof (intro conjI impI)
  show "(\<exists>e. calculateExponentialMovingAverage rnd data alpha = Inl e) \<longleftrightarrow> (alpha \<le> 0 \<or> 1 < alpha)"
    by (auto simp: calculateExponentialMovingAverage_def split: list.splits)
next
  assume ok: "\<not> (alpha \<le> 0 \<or> 1 < alpha)"
  show "\<exists>res. calculateExponentialMovingAverage rnd data alpha = Inr res \<and> length res = length data \<and>
         (data = [] \<longrightarrow> res = []) \<and>
         (data \<noteq> [] \<longrightarrow> res ! 0 = data ! 0) \<and>
         (\<forall>t. 0 < t \<and> t < length data \<longrightarrow>
            res ! t = rnd (rnd (alpha * data ! t) + rnd (rnd (1 - alpha) * res ! (t - 1))))"
  proof (cases data)
    case Nil
    then show ?thesis using ok by (simp add: calculateExponentialMovingAverage_def)
  next
    case (Cons firstVal rest)
    let ?r = "foldl (ema_step rnd data alpha) [firstVal] [1..<length data]"
    have eq: "calculateExponentialMovingAverage rnd data alpha = Inr ?r"
      using ok Cons by (simp add: calculateExponentialMovingAverage_def)
    have "1 \<le> length data" using Cons by simp
    from ema_loop [OF Cons this order_refl, of rnd alpha]
    show ?thesis using Cons unfolding eq by (simp add: ema_next_def)
  qed
next
  show "calculateExponentialMovingAverage binary64 [10, 20, 30] 0.5 = Inr [10, 15, 22.5]"
    by code_simp
qed

theorem ema_spec_witness:
  "\<not> ((1/2 :: real) \<le> 0 \<or> 1 < (1/2 :: real)) \<and>
   calculateExponentialMovingAverage exact [10, 20, 30] (1/2) = Inr [10, 15, 45/2]"
proof -
  let ?d = "[10, 20, 30 :: real]"
  have ok: "\<not> ((1/2 :: real) \<le> 0 \<or> 1 < (1/2 :: real))" by simp
  from ema_spec [of exact ?d "1/2"] ok
  obtain res where r: "calculateExponentialMovingAverage exact ?d (1/2) = Inr res" "length res = length ?d"
    "res ! 0 = ?d ! 0"
    and el: "\<forall>t. 0 < t \<and> t < length ?d \<longrightarrow>
            res ! t = exact (exact (1/2 * ?d ! t) + exact (exact (1 - 1/2) * res ! (t - 1)))"
    by auto
  from el have "res ! 1 = exact (exact (1/2 * ?d ! 1) + exact (exact (1 - 1/2) * res ! (1 - 1)))"
    by force
  then have e1: "res ! 1 = 15" using r(3) by (simp add: exact_def)
  from el have "res ! 2 = exact (exact (1/2 * ?d ! 2) + exact (exact (1 - 1/2) * res ! (2 - 1)))"
    by force
  then have e2: "res ! 2 = 45/2" using e1 by (simp add: exact_def)
  have "res = [res ! 0, res ! 1, res ! 2]"
    using r(2) by (auto simp: list_eq_iff_nth_eq less_Suc_eq numeral_3_eq_3 numeral_2_eq_2)
  then have "res = [10, 15, 45/2]" using r(3) e1 e2 by simp
  then show ?thesis using ok r(1) by simp
qed

section \<open>Properties of the filters\<close>





section \<open>The recomputation of the analysis panel\<close>

text \<open>
  Claim C1. The claim is that the recomputation never throws. The stages are guarded
  (the trend needs two points, the others one), but the moving-average stage does not
  compare the window with the length of the series: with three raw points and the
  simple moving average selected at the initial window of 7, the error of
  \<open>calculateSimpleMovingAverage\<close> leaves the recomputation.
\<close>

theorem orchestrator_throws:
  "processedData utc_date binary64 [pt 0 1, pt 86400000 2, pt 172800000 3] smaSelected =
     Inl (Error ''Window size must be positive and <= data length'')"
  by (simp add: processedData_def smaSelected_def initialState_def movingAverageStage_def
      calculateSimpleMovingAverage_def pt_def)

theorem orchestrator_throws_witness:
  "\<exists>e. processedData utc_date binary64 [pt 0 1, pt 86400000 2, pt 172800000 3] smaSelected = Inl e"
  using orchestrator_throws by simp

section \<open>Indexed loops\<close>

lemma zip_upt_map: "zip xs [0..<length xs] = map (\<lambda>i. (xs ! i, i)) [0..<length xs]"
  by (rule nth_equalityI) simp_all

lemma foldl_collect:
  assumes "\<And>acc e. step acc e = (if P e then acc @ [snd e] else acc)"
  shows "foldl step acc es = acc @ map snd (filter P es)"
  by (induction es arbitrary: acc) (simp_all add: assms)

lemma collect_indices:
  assumes "\<And>acc e. step acc e = (if P (fst e) then acc @ [snd e] else acc)"
  shows "foldl step [] (zip xs [0..<length xs]) = filter (\<lambda>i. P (xs ! i)) [0..<length xs]"
proof -
  have "foldl step [] (zip xs [0..<length xs]) =
      map snd (filter (\<lambda>e. P (fst e)) (zip xs [0..<length xs]))"
    using foldl_collect [of step "\<lambda>e. P (fst e)" "[]"] assms by simp
  also have "\<dots> = filter (\<lambda>i. P (xs ! i)) [0..<length xs]"
    unfolding zip_upt_map by (simp add: filter_map comp_def)
  finally show ?thesis .
qed

section \<open>Empty input\<close>

text \<open>
  Claim C2, as the code has it. On an empty series \<open>calculateIQR\<close> returns zero bounds
  and no outlier, \<open>calculateExponentialMovingAverage\<close> (for a valid \<open>alpha\<close>),
  \<open>aggregateByTimePeriod\<close> and \<open>detectAnomalies\<close> return the empty list. The other two
  engines throw on an empty series by their guards: \<open>calculateSimpleMovingAverage\<close> for
  every window, since no window is positive and at most 0, and \<open>calculateLinearTrend\<close>.
\<close>

theorem empty_input_spec:
  "calculateIQR rnd [] = \<lparr>q1 = 0, q3 = 0, iqr = 0, lowerBound = 0, upperBound = 0, outlierIndices = []\<rparr> \<and>
   (0 < a \<and> a \<le> 1 \<longrightarrow> calculateExponentialMovingAverage rnd [] a = Inr []) \<and>
   aggregateByTimePeriod api rnd [] p f = [] \<and>
   detectAnomalies rnd [] t = [] \<and>
   calculateSimpleMovingAverage rnd [] w = Inl (Error ''Window size must be positive and <= data length'') \<and>
   calculateLinearTrend rnd [] [] = Inl (Error ''X and Y arrays must have the same non-zero length'')"
  by (auto simp: calculateIQR_def calculateExponentialMovingAverage_def aggregateByTimePeriod_def
      detectAnomalies_def calculateSimpleMovingAverage_def calculateLinearTrend_def)

theorem empty_input_spec_witness:
  "0 < (1/2 :: real) \<and> (1/2 :: real) \<le> 1 \<and>
   calculateExponentialMovingAverage binary64 [] (1/2) = Inr [] \<and>
   calculateSimpleMovingAverage binary64 [] 1 = Inl (Error ''Window size must be positive and <= data length'')"
  using empty_input_spec [of binary64 "1/2" utc_date daily mean_agg 2 1] by simp

theorem empty_input_counterexample:
  "calculateSimpleMovingAverage binary64 [] 1 = Inl (Error ''Window size must be positive and <= data length'') \<and>
   calculateLinearTrend binary64 [] [] = Inl (Error ''X and Y arrays must have the same non-zero length'')"
  by (simp add: calculateSimpleMovingAverage_def calculateLinearTrend_def)

section \<open>Interquartile range\<close>

lemma floor_quarter: "\<lfloor>exact (real n * 0.25)\<rfloor> = int (n div 4)"
proof -
  have "real n * 0.25 = real n / real 4" by simp
  then show ?thesis unfolding exact_def by (simp only: floor_divide_of_nat_eq) 
qed

lemma floor_three_quarters: "\<lfloor>exact (real n * 0.75)\<rfloor> = int (3 * n div 4)"
proof -
  have "real n * 0.75 = real (3 * n) / real 4" by simp
  then show ?thesis unfolding exact_def by (simp only: floor_divide_of_nat_eq)
qed

lemma iqr_q1:
  "data \<noteq> [] \<Longrightarrow>
   q1 (calculateIQR rnd data) = nth_or_0 (sort data) (nat \<lfloor>rnd (real (length data) * 0.25)\<rfloor>)"
  by (simp add: calculateIQR_def Let_def)

lemma iqr_q3:
  "data \<noteq> [] \<Longrightarrow>
   q3 (calculateIQR rnd data) = nth_or_0 (sort data) (nat \<lfloor>rnd (real (length data) * 0.75)\<rfloor>)"
  by (simp add: calculateIQR_def Let_def)

text \<open>
  Claim C6. For a non-empty input, \<open>q1\<close> and \<open>q3\<close> are the elements of the ascending
  sort at the positions \<open>floor(n * 0.25)\<close> and \<open>floor(n * 0.75)\<close>, the bounds are
  \<open>q1 - 1.5 * iqr\<close> and \<open>q3 + 1.5 * iqr\<close>, and the outlier indices are, in ascending
  order, exactly the positions of the input whose value is below the lower or above the
  upper bound. Without rounding the positions are \<open>n div 4\<close> and \<open>3 * n div 4\<close>, both
  within the list. In binary64 arithmetic the only outlier of \<open>[1,2,3,4,5,6,7,8,9,100]\<close>
  is at index 9.
\<close>

theorem iqr_spec:
  "(data \<noteq> [] \<longrightarrow>
      q1 (calculateIQR rnd data) = nth_or_0 (sort data) (nat \<lfloor>rnd (real (length data) * 0.25)\<rfloor>) \<and>
      q3 (calculateIQR rnd data) = nth_or_0 (sort data) (nat \<lfloor>rnd (real (length data) * 0.75)\<rfloor>) \<and>
      iqr (calculateIQR rnd data) = rnd (q3 (calculateIQR rnd data) - q1 (calculateIQR rnd data)) \<and>
      lowerBound (calculateIQR rnd data) =
        rnd (q1 (calculateIQR rnd data) - rnd (1.5 * iqr (calculateIQR rnd data))) \<and>
      upperBound (calculateIQR rnd data) =
        rnd (q3 (calculateIQR rnd data) + rnd (1.5 * iqr (calculateIQR rnd data))) \<and>
      outlierIndices (calculateIQR rnd data) =
        filter (\<lambda>i. data ! i < lowerBound (calculateIQR rnd data) \<or>
                     data ! i > upperBound (calculateIQR rnd data)) [0..<length data]) \<and>
   (data \<noteq> [] \<longrightarrow>
      q1 (calculateIQR exact data) = sort data ! (length data div 4) \<and>
      q3 (calculateIQR exact data) = sort data ! (3 * length data div 4) \<and>
      lowerBound (calculateIQR exact data) =
        q1 (calculateIQR exact data) - 1.5 * (q3 (calculateIQR exact data) - q1 (calculateIQR exact data)) \<and>
      upperBound (calculateIQR exact data) =
        q3 (calculateIQR exact data) + 1.5 * (q3 (calculateIQR exact data) - q1 (calculateIQR exact data))) \<and>
   outlierIndices (calculateIQR binary64 [1, 2, 3, 4, 5, 6, 7, 8, 9, 100]) = [9]"
proof (intro conjI impI)
  assume ne: "data \<noteq> []"
  define lb where "lb = lowerBound (calculateIQR rnd data)"
  define ub where "ub = upperBound (calculateIQR rnd data)"
  have step: "outlier_step lb ub acc e = (if fst e < lb \<or> fst e > ub then acc @ [snd e] else acc)"
    for acc e
    by (cases e) (simp add: outlier_step_def)
  have loop: "foldl (outlier_step lb ub) [] (zip data [0..<length data]) =
      filter (\<lambda>i. data ! i < lb \<or> data ! i > ub) [0..<length data]"
    using collect_indices [of "outlier_step lb ub" "\<lambda>v. v < lb \<or> v > ub" data] step by simp
  show "q1 (calculateIQR rnd data) = nth_or_0 (sort data) (nat \<lfloor>rnd (real (length data) * 0.25)\<rfloor>)"
    using ne by (rule iqr_q1)
  show "q3 (calculateIQR rnd data) = nth_or_0 (sort data) (nat \<lfloor>rnd (real (length data) * 0.75)\<rfloor>)"
    using ne by (rule iqr_q3)
  show "iqr (calculateIQR rnd data) = rnd (q3 (calculateIQR rnd data) - q1 (calculateIQR rnd data))"
    using ne by (simp add: calculateIQR_def Let_def)
  show "lowerBound (calculateIQR rnd data) =
        rnd (q1 (calculateIQR rnd data) - rnd (1.5 * iqr (calculateIQR rnd data)))"
    using ne by (simp add: calculateIQR_def Let_def)
  show "upperBound (calculateIQR rnd data) =
        rnd (q3 (calculateIQR rnd data) + rnd (1.5 * iqr (calculateIQR rnd data)))"
    using ne by (simp add: calculateIQR_def Let_def)
  have "outlierIndices (calculateIQR rnd data) =
      foldl (outlier_step lb ub) [] (zip data [0..<length data])"
    using ne unfolding lb_def ub_def by (simp add: calculateIQR_def Let_def)
  then show "outlierIndices (calculateIQR rnd data) =
        filter (\<lambda>i. data ! i < lowerBound (calculateIQR rnd data) \<or>
                     data ! i > upperBound (calculateIQR rnd data)) [0..<length data]"
    using loop unfolding lb_def ub_def by simp
next
  assume ne: "data \<noteq> []"
  then have pos: "0 < length data" by simp
  have i1: "nat \<lfloor>exact (real (length data) * 0.25)\<rfloor> = length data div 4"
    by (simp only: floor_quarter nat_int)
  have i3: "nat \<lfloor>exact (real (length data) * 0.75)\<rfloor> = 3 * length data div 4"
    by (simp only: floor_three_quarters nat_int)
  have b: "length data div 4 < length data" "3 * length data div 4 < length data"
    using pos by linarith+
  show "q1 (calculateIQR exact data) = sort data ! (length data div 4)"
    unfolding iqr_q1 [OF ne] i1 using b by (simp add: nth_or_0_def)
  show "q3 (calculateIQR exact data) = sort data ! (3 * length data div 4)"
    unfolding iqr_q3 [OF ne] i3 using b by (simp add: nth_or_0_def)
  show "lowerBound (calculateIQR exact data) =
        q1 (calculateIQR exact data) - 1.5 * (q3 (calculateIQR exact data) - q1 (calculateIQR exact data))"
    using ne by (simp add: calculateIQR_def Let_def) (simp add: exact_def)
  show "upperBound (calculateIQR exact data) =
        q3 (calculateIQR exact data) + 1.5 * (q3 (calculateIQR exact data) - q1 (calculateIQR exact data))"
    using ne by (simp add: calculateIQR_def Let_def) (simp add: exact_def)
next
  show "outlierIndices (calculateIQR binary64 [1, 2, 3, 4, 5, 6, 7, 8, 9, 100]) = [9]"
    by code_simp
qed

theorem iqr_spec_witness:
  "[1, 2, 3, 4, 5, 6, 7, 8, 9, 100 :: real] \<noteq> [] \<and>
   q1 (calculateIQR exact [1, 2, 3, 4, 5, 6, 7, 8, 9, 100]) = 3 \<and>
   q3 (calculateIQR exact [1, 2, 3, 4, 5, 6, 7, 8, 9, 100]) = 8 \<and>
   lowerBound (calculateIQR exact [1, 2, 3, 4, 5, 6, 7, 8, 9, 100]) = - 4.5 \<and>
   upperBound (calculateIQR exact [1, 2, 3, 4, 5, 6, 7, 8, 9, 100]) = 15.5 \<and>
   outlierIndices (calculateIQR exact [1, 2, 3, 4, 5, 6, 7, 8, 9, 100]) = [9]"
proof -
  let ?d = "[1, 2, 3, 4, 5, 6, 7, 8, 9, 100 :: real]"
  have ne: "?d \<noteq> []" by simp
  have s: "sort ?d = ?d" by simp
  note spec = iqr_spec [of ?d exact]
  have "q1 (calculateIQR exact ?d) = sort ?d ! (length ?d div 4)" using spec ne by blast
  then have q1: "q1 (calculateIQR exact ?d) = 3" by (simp only: s) simp
  have "q3 (calculateIQR exact ?d) = sort ?d ! (3 * length ?d div 4)" using spec ne by blast
  then have q3: "q3 (calculateIQR exact ?d) = 8" by (simp only: s) simp
  have "lowerBound (calculateIQR exact ?d) =
      q1 (calculateIQR exact ?d) - 1.5 * (q3 (calculateIQR exact ?d) - q1 (calculateIQR exact ?d))"
    using spec ne by blast
  then have lb: "lowerBound (calculateIQR exact ?d) = - 4.5" by (simp only: q1 q3) simp
  have "upperBound (calculateIQR exact ?d) =
      q3 (calculateIQR exact ?d) + 1.5 * (q3 (calculateIQR exact ?d) - q1 (calculateIQR exact ?d))"
    using spec ne by blast
  then have ub: "upperBound (calculateIQR exact ?d) = 15.5" by (simp only: q1 q3) simp
  have "outlierIndices (calculateIQR exact ?d) =
      filter (\<lambda>i. ?d ! i < lowerBound (calculateIQR exact ?d) \<or>
                   ?d ! i > upperBound (calculateIQR exact ?d)) [0..<length ?d]"
    using spec ne by blast
  also have "\<dots> = [9]" unfolding lb ub by (simp add: upt_rec)
  finally show ?thesis using ne q1 q3 lb ub by simp
qed

section \<open>Properties of the aggregation\<close>








lemma timestamp_bucket_point [simp]: "timestamp (bucket_point api rnd period func ds k) = k"
  by (simp add: bucket_point_def)















section \<open>Properties of the linear trend\<close>




lemma sum_list_constant:
  fixes xs :: "real list"
  assumes "\<forall>v \<in> set xs. v = c"
  shows "sum_list xs = real (length xs) * c"
  using assms by (induction xs) (simp_all add: algebra_simps)

lemma constant_mean:
  fixes xs :: "real list"
  assumes "\<forall>v \<in> set xs. v = c" "xs \<noteq> []"
  shows "sum_list xs / real (length xs) = c"
  using assms by (simp add: sum_list_constant)





section \<open>Properties of the anomaly detection\<close>

lemma anomaly_step_collect:
  "anomaly_step rnd m sd t acc e =
     (if js_gt (js_abs (js_div rnd (rnd (fst e - m)) sd)) t then acc @ [snd e] else acc)"
  by (cases e) (simp add: anomaly_step_def Let_def)

lemma detectAnomalies_filter:
  "detectAnomalies rnd data t =
     (if data = [] \<or> t \<le> 0 then []
      else filter (\<lambda>i. js_gt (js_abs (js_div rnd (rnd (data ! i - data_mean rnd data))
                                  (js_sqrt rnd (data_variance rnd data)))) t) [0..<length data])"
  using collect_indices [of "anomaly_step rnd (data_mean rnd data) (js_sqrt rnd (data_variance rnd data)) t"
      "\<lambda>v. js_gt (js_abs (js_div rnd (rnd (v - data_mean rnd data)) (js_sqrt rnd (data_variance rnd data)))) t"
      data]
  by (simp add: detectAnomalies_def Let_def anomaly_step_collect)

lemma zero_never_flagged: "0 < t \<Longrightarrow> rnd 0 = 0 \<Longrightarrow> \<not> js_gt (js_abs (js_div rnd 0 sd)) t"
  by (cases sd) (simp_all add: js_gt_def js_abs_def js_div_def)

lemma variance_exact:
  "data_variance exact data =
     sum_list (map (\<lambda>v. (v - data_mean exact data) ^ 2) data) / real (length data)"
proof -
  have "foldl (\<lambda>s v. s + (v - m) ^ 2) a xs = a + sum_list (map (\<lambda>v. (v - m) ^ 2) xs)"
    for a m :: real and xs
    by (induction xs arbitrary: a) simp_all
  then show ?thesis by (simp add: data_variance_def exact_def)
qed

lemma zero_variance_exact:
  assumes "js_sqrt exact (data_variance exact data) = Num 0" "data \<noteq> []"
  shows "\<forall>v \<in> set data. v = data_mean exact data"
proof -
  let ?m = "data_mean exact data"
  have nn: "0 \<le> sum_list (map (\<lambda>v. (v - ?m) ^ 2) data)"
    by (rule sum_list_nonneg) auto
  then have "0 \<le> data_variance exact data" by (simp add: variance_exact)
  with assms(1) have "data_variance exact data = 0"
    by (simp add: js_sqrt_def exact_def split: if_splits)
  then have "sum_list (map (\<lambda>v. (v - ?m) ^ 2) data) = 0"
    using assms(2) by (simp add: variance_exact)
  then have "\<forall>z \<in> set (map (\<lambda>v. (v - ?m) ^ 2) data). z = 0"
    by (subst (asm) sum_list_nonneg_eq_0_iff) auto
  then show ?thesis by auto
qed

lemma constant_data_mean_exact:
  assumes "\<forall>v \<in> set data. v = c" "data \<noteq> []"
  shows "data_mean exact data = c"
  using constant_mean [OF assms] by (simp add: data_mean_def js_sum_exact exact_def)

text \<open>
  Claim C7, as the code has it. The result of \<open>detectAnomalies\<close> is empty for an empty
  input or a non-positive threshold; in general it is an ascending list of indices of
  the input. A point equal to the computed mean is never flagged (its z-score is 0 or
  \<^verbatim>\<open>NaN\<close>, and no comparison with \<^verbatim>\<open>NaN\<close> holds), for every rounding that keeps 0. In
  the arithmetic of the reals an input whose values are all equal, or whose standard
  deviation is 0, has no flagged index. The code does not treat a zero standard
  deviation apart. In binary64 arithmetic the computed mean of equal values can differ
  from them, and the squares of small deviations underflow to a standard deviation of
  exactly 0, for which every z-score is infinite: such inputs are flagged.
\<close>

theorem anomalies_spec:
  "(data = [] \<or> t \<le> 0 \<longrightarrow> detectAnomalies rnd data t = []) \<and>
   (\<forall>i \<in> set (detectAnomalies rnd data t). i < length data) \<and>
   sorted_wrt (<) (detectAnomalies rnd data t) \<and>
   (rnd 0 = 0 \<longrightarrow>
      (\<forall>i < length data. data ! i = data_mean rnd data \<longrightarrow> i \<notin> set (detectAnomalies rnd data t))) \<and>
   ((\<forall>v \<in> set data. v = hd data) \<longrightarrow> detectAnomalies exact data t = []) \<and>
   (js_sqrt exact (data_variance exact data) = Num 0 \<longrightarrow> detectAnomalies exact data t = [])"
proof -
  have a: "detectAnomalies rnd data t = []" if "data = [] \<or> t \<le> 0"
    using that by (auto simp: detectAnomalies_def)
  have b: "\<forall>i \<in> set (detectAnomalies rnd data t). i < length data"
    by (simp add: detectAnomalies_filter)
  have c: "sorted_wrt (<) (detectAnomalies rnd data t)"
    by (simp add: detectAnomalies_filter sorted_wrt_filter)
  have d: "i \<notin> set (detectAnomalies rnd data t)"
    if "rnd 0 = 0" "i < length data" "data ! i = data_mean rnd data" for i
  proof (cases "data = [] \<or> t \<le> 0")
    case True
    then show ?thesis by (auto simp: detectAnomalies_def)
  next
    case False
    then have "0 < t" by simp
    then show ?thesis
      using that False zero_never_flagged [of t rnd "js_sqrt rnd (data_variance rnd data)"]
      by (simp add: detectAnomalies_filter)
  qed
  have e: "detectAnomalies exact data t = []" if "\<forall>v \<in> set data. v = data_mean exact data"
  proof (cases "data = [] \<or> t \<le> 0")
    case True
    then show ?thesis by (auto simp: detectAnomalies_def)
  next
    case False
    then have "0 < t" by simp
    moreover have "exact 0 = 0" by (simp add: exact_def)
    moreover have "exact (data ! i - data_mean exact data) = 0" if "i < length data" for i
      using that \<open>\<forall>v \<in> set data. v = data_mean exact data\<close> nth_mem [of i data]
      by (simp add: exact_def)
    ultimately show ?thesis
      using False zero_never_flagged [of t exact "js_sqrt exact (data_variance exact data)"]
      by (simp add: detectAnomalies_filter filter_empty_conv)
  qed
  have f: "detectAnomalies exact data t = []" if "\<forall>v \<in> set data. v = hd data"
  proof (cases "data = []")
    case True
    then show ?thesis by (simp add: detectAnomalies_def)
  next
    case False
    then show ?thesis using e constant_data_mean_exact [OF that False] that by simp
  qed
  have g: "detectAnomalies exact data t = []" if "js_sqrt exact (data_variance exact data) = Num 0"
  proof (cases "data = []")
    case True
    then show ?thesis by (simp add: detectAnomalies_def)
  next
    case False
    then show ?thesis using e zero_variance_exact [OF that False] by simp
  qed
  show ?thesis using a b c d f g by blast
qed

section \<open>Evaluating the binary64 rounding\<close>

text \<open>
  \<open>ilog2\<close> is the exponent of its argument, so that \<open>binary64\<close> can be evaluated at a
  number whose exponent is known.
\<close>

lemma bitlen_unique:
  assumes "2 ^ k \<le> m" "m < 2 ^ (k + 1)"
  shows "bitlen m = int k + 1"
proof -
  have pos: "0 < m" using assms(1) by (smt (verit) zero_less_power)
  let ?b = "bitlen m"
  have b: "2 ^ nat (?b - 1) \<le> m" "m < 2 ^ nat ?b"
    using bitlen_bounds [OF pos] by simp_all
  have "(2::int) ^ k < 2 ^ nat ?b" using assms(1) b(2) by linarith
  then have 1: "k < nat ?b" by (rule power_less_imp_less_exp [rotated]) simp
  have "(2::int) ^ nat (?b - 1) < 2 ^ (k + 1)" using assms(2) b(1) by linarith
  then have 2: "nat (?b - 1) < k + 1" by (rule power_less_imp_less_exp [rotated]) simp
  show ?thesis using 1 2 by linarith
qed

lemma pow2_pos: "0 < pow2 e"
  by (simp add: pow2_def)

lemma ilog2_unique:
  assumes lo: "pow2 e \<le> x" and hi: "x < pow2 (e + 1)"
  shows "ilog2 x = e"
proof (cases "1 \<le> x")
  case True
  have e0: "0 \<le> e"
  proof (rule ccontr)
    assume "\<not> 0 \<le> e"
    then have "pow2 (e + 1) \<le> 1" by (auto simp: pow2_def divide_le_eq_1)
    with hi True show False by simp
  qed
  define k where "k = nat e"
  have e: "e = int k" using e0 by (simp add: k_def)
  have lo': "(2::real) ^ k \<le> x" using lo by (simp add: pow2_def e)
  have hi': "x < (2::real) ^ (k + 1)" using hi by (simp add: pow2_def e nat_add_distrib)
  have "of_int (2 ^ k) \<le> x" using lo' by simp
  then have 1: "2 ^ k \<le> \<lfloor>x\<rfloor>" by (simp only: le_floor_iff)
  have "x < of_int (2 ^ (k + 1))" using hi' by simp
  then have 2: "\<lfloor>x\<rfloor> < 2 ^ (k + 1)" by (simp only: floor_less_iff)
  have "bitlen \<lfloor>x\<rfloor> = int k + 1" using 1 2 by (rule bitlen_unique)
  then show ?thesis using True by (simp add: ilog2_def e)
next
  case False
  have xpos: "0 < x" using lo pow2_pos [of e] by linarith
  have eneg: "e < 0"
  proof (rule ccontr)
    assume "\<not> e < 0"
    then have "1 \<le> pow2 e" by (simp add: pow2_def)
    with lo False show False by simp
  qed
  define k where "k = nat (- e) - 1"
  have e: "e = - int (k + 1)" using eneg by (simp add: k_def)
  have lo': "1 / (2::real) ^ (k + 1) \<le> x" using lo by (simp add: pow2_def e nat_add_distrib)
  have hi': "x < 1 / (2::real) ^ k"
    using hi by (cases "k = 0") (simp_all add: pow2_def e)
  have up: "1 / x \<le> 2 ^ (k + 1)"
    using lo' xpos by (simp add: field_simps)
  have dn: "2 ^ k < 1 / x"
    using hi' xpos by (simp add: field_simps)
  have "1 / x \<le> of_int (2 ^ (k + 1))" using up by simp
  then have c1: "\<lceil>1 / x\<rceil> \<le> 2 ^ (k + 1)" by (simp only: ceiling_le_iff)
  have "of_int (2 ^ k) < 1 / x" using dn by simp
  then have c2: "2 ^ k < \<lceil>1 / x\<rceil>" by (simp only: less_ceiling_iff)
  have "bitlen (\<lceil>1 / x\<rceil> - 1) = int k + 1"
    using c1 c2 by (intro bitlen_unique) linarith+
  then show ?thesis using False by (simp add: ilog2_def e)
qed

lemma binary64_at:
  assumes "pow2 e \<le> \<bar>x\<bar>" "\<bar>x\<bar> < pow2 (e + 1)"
  shows "binary64 x = of_int (rne (x / pow2 (max (e - 52) (- 1074)))) * pow2 (max (e - 52) (- 1074))"
proof -
  have "x \<noteq> 0" using assms(1) pow2_pos [of e] by auto
  then show ?thesis
    by (simp add: binary64_def Let_def ilog2_unique [OF assms])
qed

lemma binary64_zero: "binary64 0 = 0"
  by (simp add: binary64_def)


section \<open>Anomaly detection in binary64 arithmetic\<close>

lemma length_three: "real (length [a, b, c]) = 3"
  by simp

lemma tenth_mean: "data_mean binary64 [tenth, tenth, tenth] = 7205759403792795 / 72057594037927936"
  unfolding data_mean_def js_sum_def foldl.simps length_three
  by (simp add: tenth_def pow2_def rne_def binary64_at [where e = "- 4"] binary64_at [where e = "- 3"] binary64_at [where e = "- 2"])

lemma tenth_variance: "data_variance binary64 [tenth, tenth, tenth] = 1 / 5192296858534827628530496329220096"
  unfolding data_variance_def tenth_mean foldl.simps length_three
  by (simp add: tenth_def power2_eq_square pow2_def rne_def binary64_at [where e = "- 112"] binary64_at [where e = "- 111"] binary64_at [where e = "- 56"])

lemma tenth_sqrt: "sqrt (1 / 5192296858534827628530496329220096) = 1 / 72057594037927936"
  by (rule real_sqrt_unique) (simp_all add: power_divide)

lemma tenth_stdDev: "js_sqrt binary64 (data_variance binary64 [tenth, tenth, tenth]) = Num (1 / 72057594037927936)"
  unfolding tenth_variance js_sqrt_def tenth_sqrt
  by (simp add: pow2_def rne_def binary64_at [where e = "- 56"])

lemma tenth_flagged:
  "js_gt (js_abs (js_div binary64 (binary64 (tenth - 7205759403792795 / 72057594037927936)) (Num (1 / 72057594037927936)))) (1 / 2)"
  by (simp add: js_gt_def js_abs_def js_div_def tenth_def pow2_def rne_def binary64_at [where e = "- 112"] binary64_at [where e = "- 111"] binary64_at [where e = "- 56"] binary64_at [where e = "0"])

lemma tiny_mean: "data_mean binary64 [tiny, tiny, tiny] = 7205759403792795 / 299004108316488185848867822351174292268202623451041623610437960853046897358187881202051502002495252055893102400215083077513294952620060704653486412249315029041282722978874323768631243063073425063936"
  unfolding data_mean_def js_sum_def foldl.simps length_three
  by (simp add: tiny_def pow2_def rne_def binary64_at [where e = "- 604"] binary64_at [where e = "- 603"] binary64_at [where e = "- 602"])

lemma tiny_variance: "data_variance binary64 [tiny, tiny, tiny] = 0"
  unfolding data_variance_def tiny_mean foldl.simps length_three
  by (simp add: tiny_def power2_eq_square pow2_def rne_def binary64_zero binary64_at [where e = "- 1312"] binary64_at [where e = "- 656"])

lemma tiny_stdDev: "js_sqrt binary64 (data_variance binary64 [tiny, tiny, tiny]) = Num 0"
  by (simp add: tiny_variance js_sqrt_def binary64_zero)

lemma tiny_flagged:
  "js_gt (js_abs (js_div binary64 (binary64 (tiny - 7205759403792795 / 299004108316488185848867822351174292268202623451041623610437960853046897358187881202051502002495252055893102400215083077513294952620060704653486412249315029041282722978874323768631243063073425063936)) (Num 0))) 1000"
  by (simp add: js_gt_def js_abs_def js_div_def tiny_def pow2_def rne_def binary64_at [where e = "- 1312"] binary64_at [where e = "- 656"])

theorem anomalies_spec_witness:
  "set [5, 5, 5 :: real] = {hd [5, 5, 5]} \<and> detectAnomalies exact [5, 5, 5] 2 = [] \<and>
   js_sqrt exact (data_variance exact [5, 5, 5]) = Num 0 \<and>
   exact 0 = 0 \<and> 3 \<notin> set (detectAnomalies exact [1, 2, 9, 4] 1) \<and>
   detectAnomalies exact [1, 2, 3] 0 = []"
proof -
  have h: "\<forall>v \<in> set [5, 5, 5 :: real]. v = hd [5, 5, 5]" by simp
  have a: "detectAnomalies exact [5, 5, 5] 2 = []"
    using anomalies_spec [of "[5, 5, 5]" 2 exact] h by blast
  have b: "detectAnomalies exact [1, 2, 3] 0 = []"
    using anomalies_spec [of "[1, 2, 3]" 0 exact] by simp
  have c: "js_sqrt exact (data_variance exact [5, 5, 5]) = Num 0"
    by (simp add: js_sqrt_def data_variance_def data_mean_def js_sum_def exact_def)
  have z: "exact 0 = 0" by (simp add: exact_def)
  have m: "[1, 2, 9, 4] ! 3 = data_mean exact [1, 2, 9, 4]"
    by (simp add: data_mean_def js_sum_def exact_def)
  have "(3::nat) < length [1, 2, 9, 4 :: real]" by simp
  with z m have d: "3 \<notin> set (detectAnomalies exact [1, 2, 9, 4] 1)"
    using anomalies_spec [of "[1, 2, 9, 4]" 1 exact] by blast
  show ?thesis using a b c z d by simp
qed

lemma filter_all_three: "P 0 \<Longrightarrow> P 1 \<Longrightarrow> P 2 \<Longrightarrow> filter P [0..<length [a, b, c]] = [0, 1, 2 :: nat]"
  by (simp add: upt_rec numeral_2_eq_2)

theorem anomalies_counterexample:
  "set [tenth, tenth, tenth] = {tenth} \<and>
   detectAnomalies binary64 [tenth, tenth, tenth] (1 / 2) = [0, 1, 2] \<and>
   set [tiny, tiny, tiny] = {tiny} \<and>
   js_sqrt binary64 (data_variance binary64 [tiny, tiny, tiny]) = Num 0 \<and>
   detectAnomalies binary64 [tiny, tiny, tiny] 1000 = [0, 1, 2]"
proof (intro conjI)
  show "detectAnomalies binary64 [tenth, tenth, tenth] (1 / 2) = [0, 1, 2]"
    unfolding detectAnomalies_filter tenth_mean tenth_stdDev
    using tenth_flagged by (simp add: filter_all_three)
  show "js_sqrt binary64 (data_variance binary64 [tiny, tiny, tiny]) = Num 0"
    by (rule tiny_stdDev)
  show "detectAnomalies binary64 [tiny, tiny, tiny] 1000 = [0, 1, 2]"
    unfolding detectAnomalies_filter tiny_mean tiny_stdDev
    using tiny_flagged by (simp add: filter_all_three)
qed simp_all

end
